theory Spec2Isabelle
  imports Complex_Main
begin

section \<open>JavaScript values\<close>

text \<open>
  The service receives JSON bodies and a caller-supplied options object whose
  TypeScript types are erased at run time, so both are modelled as JavaScript
  values. Numbers are the rationals plus the three non-finite doubles; the
  counters, delays and clock readings the service computes with are integers
  far below \<open>2 ^ 53\<close>, where double arithmetic is exact.
\<close>

datatype jsval =
    JUndefined
  | JNull
  | JBool bool
  | JNum rat
  | JNaN
  | JInfinity bool
  | JStr string
  | JArr "jsval list"
  | JObj "(string \<times> jsval) list"

type_synonym obj = "(string \<times> jsval) list"

text \<open>\<open>o.k\<close> on the property list of an object: a missing key reads \<open>undefined\<close>.\<close>

definition getp :: "obj \<Rightarrow> string \<Rightarrow> jsval" where
  "getp ps k = (case map_of ps k of None \<Rightarrow> JUndefined | Some v \<Rightarrow> v)"

text \<open>\<open>o.k = v\<close>: an existing key keeps its place, a new key is appended.\<close>

fun setp :: "obj \<Rightarrow> string \<Rightarrow> jsval \<Rightarrow> obj" where
  "setp [] k v = [(k, v)]"
| "setp ((k', v') # ps) k v = (if k' = k then (k, v) # ps else (k', v') # setp ps k v)"

text \<open>
  \<open>x?.k\<close> as the service uses it (\<open>k\<close> is \<open>ready\<close> or \<open>data\<close>): \<open>undefined\<close>
  on \<open>null\<close> and \<open>undefined\<close>, the property of an object, and \<open>undefined\<close> on
  every other value, none of which owns such a property.
\<close>

fun optchain :: "jsval \<Rightarrow> string \<Rightarrow> jsval" where
  "optchain (JObj ps) k = getp ps k"
| "optchain _ k = JUndefined"

text \<open>Truthiness, as \<open>!!v\<close> and \<open>v && ...\<close> compute it.\<close>

fun truthy :: "jsval \<Rightarrow> bool" where
  "truthy JUndefined = False"
| "truthy JNull = False"
| "truthy (JBool b) = b"
| "truthy (JNum r) = (r \<noteq> 0)"
| "truthy JNaN = False"
| "truthy (JStr s) = (s \<noteq> [])"
| "truthy _ = True"

section \<open>Transport outcomes and their classification\<close>

text \<open>
  \<open>HttpClient.get(url, {observe: 'response'})\<close> delivers either an
  \<open>HttpResponse\<close> to the \<open>next\<close> handler or an \<open>HttpErrorResponse\<close> to the
  \<open>error\<close> handler.
\<close>

datatype HttpResponse = HttpResponse (status: int) (body: jsval)

datatype HttpErrorResponse = HttpErrorResponse (status: int) (error: jsval)

datatype outcome = Next HttpResponse | Err HttpErrorResponse

datatype ErrorCodes = UNEXPECTED_RESPONSE_FORMAT | DATA_NOT_READY_YET | UNKNOWN_ERROR

fun ErrorMessages :: "ErrorCodes \<Rightarrow> string" where
  "ErrorMessages UNEXPECTED_RESPONSE_FORMAT = ''Unexpected response format.''"
| "ErrorMessages DATA_NOT_READY_YET = ''Data not ready yet.''"
| "ErrorMessages UNKNOWN_ERROR = ''Server error.''"

definition checkForValidResponse :: "HttpResponse \<Rightarrow> bool" where
  "checkForValidResponse httpResponse \<longleftrightarrow>
     HttpResponse.status httpResponse = 200
     \<and> optchain (body httpResponse) ''ready'' = JBool True
     \<and> optchain (body httpResponse) ''data'' \<noteq> JUndefined"

definition checkResponseForRetry :: "HttpErrorResponse \<Rightarrow> bool" where
  "checkResponseForRetry httpResponse \<longleftrightarrow>
     HttpErrorResponse.status httpResponse = 404
     \<and> optchain (error httpResponse) ''ready'' = JBool False"

text \<open>
  What the two handlers of \<open>checkResponseObserver\<close> decide to do with an
  outcome, given the two retry flags of the options.
\<close>

datatype action =
    SendAndComplete jsval
  | ScheduleRetry ErrorCodes
  | SendErrorAndComplete ErrorCodes

fun checkResponseObserver :: "bool \<Rightarrow> bool \<Rightarrow> outcome \<Rightarrow> action" where
  "checkResponseObserver onFormat onFailure (Next response) =
     (if checkForValidResponse response then SendAndComplete (body response)
      else if onFormat then ScheduleRetry UNEXPECTED_RESPONSE_FORMAT
      else SendErrorAndComplete UNEXPECTED_RESPONSE_FORMAT)"
| "checkResponseObserver onFormat onFailure (Err response) =
     (if checkResponseForRetry response then ScheduleRetry DATA_NOT_READY_YET
      else if onFailure then ScheduleRetry UNKNOWN_ERROR
      else SendErrorAndComplete UNKNOWN_ERROR)"

text \<open>
  The four classes of the specification, read off the action taken: data is
  delivered, or the error code handed to the retry scheduler or to the terminal
  error names the class.
\<close>

datatype classification = Ready | NotReadyRetryable | FormatInvalid | ServerFailure

fun classOfCode :: "ErrorCodes \<Rightarrow> classification" where
  "classOfCode DATA_NOT_READY_YET = NotReadyRetryable"
| "classOfCode UNEXPECTED_RESPONSE_FORMAT = FormatInvalid"
| "classOfCode UNKNOWN_ERROR = ServerFailure"

fun classOfAction :: "action \<Rightarrow> classification" where
  "classOfAction (SendAndComplete d) = Ready"
| "classOfAction (ScheduleRetry c) = classOfCode c"
| "classOfAction (SendErrorAndComplete c) = classOfCode c"

definition classify :: "bool \<Rightarrow> bool \<Rightarrow> outcome \<Rightarrow> classification" where
  "classify onFormat onFailure out = classOfAction (checkResponseObserver onFormat onFailure out)"

text \<open>The classification C1 states, as a function of the outcome alone.\<close>

definition readyShape :: "jsval \<Rightarrow> bool" where
  "readyShape b \<longleftrightarrow> optchain b ''ready'' = JBool True \<and> optchain b ''data'' \<noteq> JUndefined"

fun claimedClass :: "outcome \<Rightarrow> classification" where
  "claimedClass (Next r) =
     (if HttpResponse.status r = 200 then (if readyShape (body r) then Ready else FormatInvalid)
      else ServerFailure)"
| "claimedClass (Err r) =
     (if HttpErrorResponse.status r = 404 \<and> optchain (error r) ''ready'' = JBool False
      then NotReadyRetryable else ServerFailure)"

text \<open>
  The classification with the status of a success taken into account only for
  Ready: a success that is not Ready is a format error, whatever its status.
\<close>

definition handlerClass :: "outcome \<Rightarrow> classification" where
  "handlerClass out =
     (case out of
        Next r \<Rightarrow>
          if HttpResponse.status r = 200 \<and> readyShape (body r) then Ready else FormatInvalid
      | Err r \<Rightarrow>
          if HttpErrorResponse.status r = 404 \<and> optchain (error r) ''ready'' = JBool False
          then NotReadyRetryable else ServerFailure)"

section \<open>Backoff\<close>

datatype strategyType = linear | exponential

definition calculateDelayBeforeRetry :: "nat \<Rightarrow> nat \<Rightarrow> strategyType \<Rightarrow> nat" where
  "calculateDelayBeforeRetry interval attempts strategy =
     (if strategy = linear then interval else interval * 2 ^ attempts)"

section \<open>Options, their validation, and \<open>get\<close>\<close>

text \<open>
  Objects live in a heap, a list indexed by address, so that the caller's
  options object, the service's \<open>defaultOptions\<close> and the merged copy are
  told apart. An address handed to a function is that of a live object.
\<close>

type_synonym heap = "obj list"

text \<open>
  \<open>{...a, ...b}\<close>: every own key of \<open>a\<close>, then of \<open>b\<close>, is assigned on a
  fresh object, in order; a key whose value is \<open>undefined\<close> is copied too.
\<close>

definition assign :: "obj \<Rightarrow> obj \<Rightarrow> obj" where
  "assign target src = foldl (\<lambda>t k. setp t k (getp src k)) target (map fst src)"

definition spread :: "obj \<Rightarrow> obj \<Rightarrow> obj" where
  "spread a b = assign (assign [] a) b"

definition defaultOptions :: obj where
  "defaultOptions =
     [(''retries'', JNum 3),
      (''interval'', JNum 3000),
      (''strategy'', JStr ''linear''),
      (''updateInterval'', JNum 1000),
      (''retryOnServerFailure'', JBool False),
      (''retryOnUnexpectedFormat'', JBool False),
      (''liveUpdates'', JBool True),
      (''noUpdates'', JBool False)]"

definition MAX_RETRIES :: rat where "MAX_RETRIES = 10"
definition MAX_RETRY_INTERVAL :: rat where "MAX_RETRY_INTERVAL = 60000"
definition MAX_UPDATE_INTERVAL :: rat where "MAX_UPDATE_INTERVAL = 10000"

text \<open>A thrown \<open>Error\<close>, with its message.\<close>

datatype error = Error string

definition isInteger :: "rat \<Rightarrow> bool" where
  "isInteger r \<longleftrightarrow> of_int \<lfloor>r\<rfloor> = r"

text \<open>
  \<open>!Number.isInteger(v) || v < 0 || v > mx\<close>. \<open>Number.isInteger\<close> is false
  on every value that is not a finite number, and \<open>||\<close> then skips the
  comparisons.
\<close>

fun outOfRange :: "rat \<Rightarrow> jsval \<Rightarrow> bool" where
  "outOfRange mx (JNum r) = (\<not> isInteger r \<or> r < 0 \<or> r > mx)"
| "outOfRange mx _ = True"

text \<open>\<open>['linear', 'exponential'].includes(v)\<close>\<close>

definition includesStrategy :: "jsval \<Rightarrow> bool" where
  "includesStrategy v \<longleftrightarrow> v = JStr ''linear'' \<or> v = JStr ''exponential''"

definition coerce :: "obj \<Rightarrow> string \<Rightarrow> obj" where
  "coerce ps k = setp ps k (JBool (truthy (getp ps k)))"

text \<open>
  \<open>validateOptions\<close> on the object at address \<open>a\<close>: a throw leaves the heap
  as it was, a normal return has overwritten the four flags of that object.
\<close>

definition validateOptions :: "heap \<Rightarrow> nat \<Rightarrow> error + heap" where
  \<open>validateOptions h a =
     (let options = h ! a;
          retries = getp options ''retries'';
          interval = getp options ''interval'';
          strategy = getp options ''strategy'';
          updateInterval = getp options ''updateInterval''
      in if retries \<noteq> JUndefined \<and> outOfRange MAX_RETRIES retries then
           Inl (Error ''Invalid value for retries. It must be a non-negative integer less than 10.'')
         else if interval \<noteq> JUndefined \<and> outOfRange MAX_RETRY_INTERVAL interval then
           Inl (Error ''Invalid value for interval. It must be a non-negative integer less than 60000.'')
         else if updateInterval \<noteq> JUndefined \<and> outOfRange MAX_UPDATE_INTERVAL updateInterval then
           Inl (Error ''Invalid value for updateInterval. It must be a non-negative integer less than 10000.'')
         else if truthy strategy \<and> \<not> includesStrategy strategy then
           Inl (Error ''Invalid strategy. Valid values are "linear" or "exponential".'')
         else
           Inr (h[a := coerce (coerce (coerce (coerce options
                  ''retryOnUnexpectedFormat'') ''retryOnServerFailure'') ''noUpdates'') ''liveUpdates'']))\<close>

text \<open>
  \<open>get\<close> of the service whose \<open>defaultOptions\<close> field points to \<open>d\<close>, called
  with the options object at \<open>opts\<close>. The merged object is allocated at the
  next free address. \<open>Inl\<close> is the exception thrown out of \<open>get\<close>; \<open>Inr a\<close>
  is the stream \<open>request(url, allOptions, cancelSignal)\<close>, named by the address
  of the options it will read. The stream is cold: \<open>get\<close> itself sends
  nothing, and a throw leaves the caller with no stream to subscribe to.
\<close>

definition get :: "heap \<Rightarrow> nat \<Rightarrow> nat \<Rightarrow> (error + nat) \<times> heap" where
  "get h d opts =
     (let allOptions = length h;
          h1 = h @ [spread (h ! d) (h ! opts)]
      in case validateOptions h1 allOptions of
           Inl e \<Rightarrow> (Inl e, h1)
         | Inr h2 \<Rightarrow> (Inr allOptions, h2))"






section \<open>Events\<close>

text \<open>
  A \<open>ServiceResponse\<close> is the object handed to \<open>observer.next\<close>. Numbers
  in template strings are non-negative integers, printed in decimal.
\<close>

fun showNat :: "nat \<Rightarrow> string" where
  "showNat n = (if n < 10 then [''0123456789'' ! n]
                else showNat (n div 10) @ [''0123456789'' ! (n mod 10)])"

declare showNat.simps [simp del]

text \<open>
  \<open>(ms / 1000).toFixed(0)\<close> for an integer \<open>ms\<close>: the nearest integer, a
  tie going to the larger magnitude, and the sign of a negative value kept.
\<close>

definition toFixed0 :: "int \<Rightarrow> string" where
  "toFixed0 ms = (if ms < 0 then ''-'' @ showNat (nat ((- ms + 500) div 1000))
                  else showNat (nat ((ms + 500) div 1000)))"

fun codeNumber :: "ErrorCodes \<Rightarrow> rat" where
  "codeNumber UNEXPECTED_RESPONSE_FORMAT = 0"
| "codeNumber DATA_NOT_READY_YET = 1"
| "codeNumber UNKNOWN_ERROR = 2"

definition createErrorObject :: "ErrorCodes \<Rightarrow> obj" where
  "createErrorObject errorCode =
     [(''errorCode'', JNum (codeNumber errorCode)),
      (''errorMessage'', JStr (ErrorMessages errorCode))]"

definition buildErrorResponse :: "obj \<Rightarrow> obj" where
  "buildErrorResponse errorData = [(''error'', JObj errorData)]"

text \<open>The own properties a spread copies; a body that passed the shape check is an object.\<close>

fun ownProps :: "jsval \<Rightarrow> obj" where
  "ownProps (JObj ps) = ps"
| "ownProps _ = []"

definition loadingEvent :: obj where
  "loadingEvent = [(''loading'', JBool True)]"

definition dataEvent :: "jsval \<Rightarrow> obj" where
  "dataEvent serviceResponse = setp (assign [] (ownProps serviceResponse)) ''loading'' (JBool False)"

definition errorEvent :: "ErrorCodes \<Rightarrow> obj \<Rightarrow> obj" where
  "errorEvent errorCode additionalData =
     setp (assign [] (buildErrorResponse (spread (createErrorObject errorCode) additionalData)))
       ''loading'' (JBool False)"

definition attemptsUpdate :: "ErrorCodes \<Rightarrow> nat \<Rightarrow> nat \<Rightarrow> obj" where
  "attemptsUpdate errorCode attempts retries =
     errorEvent errorCode
       [(''message'', JStr (''Attempt '' @ showNat attempts @ '' of '' @ showNat retries)),
        (''attempts'', JNum (of_nat attempts)),
        (''maxRetries'', JNum (of_nat retries))]"

text \<open>
  \<open>totalDelay / 1000\<close> is kept as the exact quotient; JavaScript holds the
  double nearest to it.
\<close>

definition maxRetriesError :: "ErrorCodes \<Rightarrow> int \<Rightarrow> nat \<Rightarrow> nat \<Rightarrow> int \<Rightarrow> obj" where
  "maxRetriesError errorCode startTime retries attempts now =
     (let totalDelay = now - startTime
      in errorEvent errorCode
           [(''message'', JStr (''Max retries reached. Retried '' @ showNat retries
                                 @ '' times over '' @ toFixed0 totalDelay @ '' seconds.'')),
            (''attempts'', JNum (of_nat attempts)),
            (''maxRetries'', JNum (of_nat retries)),
            (''totalDelay'', JNum (of_int totalDelay / 1000))])"

text \<open>The value the \<open>map\<close> of \<open>sendLiveUpdates\<close> builds at a tick.\<close>

definition liveUpdate :: "ErrorCodes \<Rightarrow> nat \<Rightarrow> nat \<Rightarrow> int \<Rightarrow> int \<Rightarrow> obj" where
  "liveUpdate errorCode attempts retries retryEndTime now =
     (let remainingTime = max (retryEndTime - now) 0
      in setp (assign [] (buildErrorResponse (spread (createErrorObject errorCode)
           [(''message'', JStr (''Retrying in '' @ showNat (nat \<lceil>(of_int remainingTime :: rat) / 1000\<rceil>)
                                 @ '' seconds... (Attempt '' @ showNat attempts
                                 @ '' of '' @ showNat retries @ '')'')),
            (''attempts'', JNum (of_nat attempts)),
            (''maxRetries'', JNum (of_nat retries)),
            (''delay'', JNum (of_int remainingTime))])))
         ''loading'' (JBool False))"

text \<open>The \<open>error\<close> object of an event, and its fields.\<close>

definition errorOf :: "obj \<Rightarrow> jsval" where
  "errorOf ev = getp ev ''error''"

definition field :: "obj \<Rightarrow> string \<Rightarrow> jsval" where
  "field ev k = optchain (errorOf ev) k"

section \<open>The operation\<close>

text \<open>
  The options \<open>request\<close> reads, once validated: \<open>Required<RetryOptions>\<close>.
\<close>

record config =
  retries :: nat
  interval :: nat
  strategy :: strategyType
  updateInterval :: nat
  retryOnServerFailure :: bool
  retryOnUnexpectedFormat :: bool
  liveUpdates :: bool
  noUpdates :: bool

text \<open>
  The merged options object of a stream, read at those types; \<open>None\<close> when a
  property does not have the type \<open>Required<RetryOptions>\<close> declares for it.
  Any strategy that is not \<open>'linear'\<close> would be computed with as exponential;
  only the two names are read here.
\<close>

fun readNat :: "jsval \<Rightarrow> nat option" where
  "readNat (JNum r) = (if isInteger r \<and> 0 \<le> r then Some (nat \<lfloor>r\<rfloor>) else None)"
| "readNat _ = None"

fun readBool :: "jsval \<Rightarrow> bool option" where
  "readBool (JBool b) = Some b"
| "readBool _ = None"

definition readStrategy :: "jsval \<Rightarrow> strategyType option" where
  "readStrategy v = (if v = JStr ''linear'' then Some linear
                     else if v = JStr ''exponential'' then Some exponential else None)"

definition readConfig :: "obj \<Rightarrow> config option" where
  "readConfig ps =
     (case (readNat (getp ps ''retries''), readNat (getp ps ''interval''),
            readStrategy (getp ps ''strategy''), readNat (getp ps ''updateInterval'')) of
        (Some r, Some i, Some s, Some u) \<Rightarrow>
          (case (readBool (getp ps ''retryOnServerFailure''),
                 readBool (getp ps ''retryOnUnexpectedFormat''),
                 readBool (getp ps ''liveUpdates''), readBool (getp ps ''noUpdates'')) of
             (Some f, Some g, Some l, Some n) \<Rightarrow>
               Some \<lparr>retries = r, interval = i, strategy = s, updateInterval = u,
                     retryOnServerFailure = f, retryOnUnexpectedFormat = g,
                     liveUpdates = l, noUpdates = n\<rparr>
           | _ \<Rightarrow> None)
      | _ \<Rightarrow> None)"

text \<open>
  What the \<open>map\<close> callback of one \<open>sendLiveUpdates\<close> call has captured.
\<close>

record ticker =
  retryEndTime :: int
  tickAttempts :: nat
  tickCode :: ErrorCodes

text \<open>
  One subscription of the stream \<open>request\<close> returns. \<open>attempts\<close> and
  \<open>startTime\<close> are the closure variables of \<open>request\<close>; \<open>stopped\<close> says
  that \<open>observer.complete()\<close> has run, after which the subscriber drops every
  \<open>next\<close>; \<open>emitted\<close> lists what the subscriber has delivered, oldest
  first; \<open>requests\<close> counts the \<open>http.get\<close> calls subscribed to. The pending
  work is an HTTP request in flight, the retry timer with its delay, and the
  tick stream of the current wait.
\<close>

record operation =
  attempts :: nat
  startTime :: int
  stopped :: bool
  emitted :: "obj list"
  requests :: nat
  inflight :: bool
  waiting :: "nat option"
  ticking :: "ticker option"

text \<open>
  What the environment does to a subscription: the request in flight resolves
  with an outcome, the wait of \<open>retryFetchAfterDelay\<close> elapses, the tick timer
  fires, or the cancel signal emits. \<open>Response\<close> and \<open>Tick\<close> carry the value
  \<open>Date.now()\<close> has while the callback runs. The timer that ends the tick
  stream is started with the same delay as the retry timer and before it, so it
  runs first; \<open>Elapsed\<close> stands for both. An input for which nothing is
  pending changes nothing.
\<close>

datatype input = Response outcome int | Elapsed | Tick int | Cancel

definition sendResponse :: "obj \<Rightarrow> operation \<Rightarrow> operation" where
  "sendResponse serviceResponse s =
     (if stopped s then s else s\<lparr>emitted := emitted s @ [serviceResponse]\<rparr>)"

definition completeOperation :: "operation \<Rightarrow> operation" where
  "completeOperation s = s\<lparr>stopped := True\<rparr>"

definition fetchData :: "config \<Rightarrow> operation \<Rightarrow> operation" where
  "fetchData options s =
     (let s1 = (if noUpdates options then s else sendResponse loadingEvent s)
      in s1\<lparr>inflight := True, requests := requests s1 + 1\<rparr>)"

definition sendAndCompleteResponse :: "jsval \<Rightarrow> operation \<Rightarrow> operation" where
  "sendAndCompleteResponse serviceResponse s =
     completeOperation (sendResponse (dataEvent serviceResponse) s)"

definition sendErrorResponse :: "ErrorCodes \<Rightarrow> obj \<Rightarrow> operation \<Rightarrow> operation" where
  "sendErrorResponse errorCode additionalData s =
     sendResponse (errorEvent errorCode additionalData) s"

definition sendErrorAndCompleteResponse :: "ErrorCodes \<Rightarrow> obj \<Rightarrow> operation \<Rightarrow> operation" where
  "sendErrorAndCompleteResponse errorCode additionalData s =
     completeOperation (sendErrorResponse errorCode additionalData s)"

definition sendMaxRetriesError :: "ErrorCodes \<Rightarrow> config \<Rightarrow> int \<Rightarrow> operation \<Rightarrow> operation" where
  "sendMaxRetriesError errorCode options now s =
     completeOperation
       (sendResponse (maxRetriesError errorCode (startTime s) (retries options) (attempts s) now) s)"

definition sendAttemptsUpdate :: "ErrorCodes \<Rightarrow> config \<Rightarrow> operation \<Rightarrow> operation" where
  "sendAttemptsUpdate errorCode options s =
     sendResponse (attemptsUpdate errorCode (attempts s) (retries options)) s"

text \<open>
  \<open>sendLiveUpdates\<close> only starts the tick stream: its first tick comes from
  a timer too, so nothing is sent in the calling turn.
\<close>

definition sendLiveUpdates :: "nat \<Rightarrow> ErrorCodes \<Rightarrow> int \<Rightarrow> operation \<Rightarrow> operation" where
  "sendLiveUpdates delay errorCode now s =
     s\<lparr>ticking := Some \<lparr>retryEndTime = now + int delay, tickAttempts = attempts s,
                          tickCode = errorCode\<rparr>\<rparr>"

definition retryFetchAfterDelay :: "nat \<Rightarrow> operation \<Rightarrow> operation" where
  "retryFetchAfterDelay delay s = s\<lparr>waiting := Some delay\<rparr>"

definition scheduleRetry :: "config \<Rightarrow> int \<Rightarrow> ErrorCodes \<Rightarrow> operation \<Rightarrow> operation" where
  "scheduleRetry options now errorCode s =
     (if attempts s \<ge> retries options then sendMaxRetriesError errorCode options now s
      else
        let delayBeforeRetry =
              calculateDelayBeforeRetry (interval options) (attempts s) (strategy options);
            s1 = (if \<not> noUpdates options then
                    (if liveUpdates options then sendLiveUpdates delayBeforeRetry errorCode now s
                     else sendAttemptsUpdate errorCode options s)
                  else s);
            s2 = s1\<lparr>attempts := attempts s1 + 1\<rparr>
        in retryFetchAfterDelay delayBeforeRetry s2)"

text \<open>Subscribing: the cancel signal is subscribed to, then the first fetch starts.\<close>

definition subscribe :: "config \<Rightarrow> int \<Rightarrow> operation" where
  "subscribe options start =
     fetchData options
       \<lparr>attempts = 0, startTime = start, stopped = False, emitted = [], requests = 0,
        inflight = False, waiting = None, ticking = None\<rparr>"

fun step :: "config \<Rightarrow> input \<Rightarrow> operation \<Rightarrow> operation" where
  "step options (Response out now) s =
     (if inflight s then
        (let s0 = s\<lparr>inflight := False\<rparr>
         in case checkResponseObserver (retryOnUnexpectedFormat options)
                   (retryOnServerFailure options) out of
              SendAndComplete b \<Rightarrow> sendAndCompleteResponse b s0
            | ScheduleRetry c \<Rightarrow> scheduleRetry options now c s0
            | SendErrorAndComplete c \<Rightarrow> sendErrorAndCompleteResponse c [] s0)
      else s)"
| "step options Elapsed s =
     (case waiting s of
        None \<Rightarrow> s
      | Some d \<Rightarrow> fetchData options (s\<lparr>waiting := None, ticking := None\<rparr>))"
| "step options (Tick now) s =
     (case ticking s of
        None \<Rightarrow> s
      | Some t \<Rightarrow>
          sendResponse (liveUpdate (tickCode t) (tickAttempts t) (retries options)
                          (retryEndTime t) now) s)"
| "step options Cancel s =
     (completeOperation s)\<lparr>inflight := False, waiting := None, ticking := None\<rparr>"

definition run :: "config \<Rightarrow> operation \<Rightarrow> input list \<Rightarrow> operation" where
  "run options s ins = foldl (\<lambda>s i. step options i s) s ins"

section \<open>Runs and their invariant\<close>

text \<open>An event carries \<open>error.totalDelay\<close>: only the max-retries error does.\<close>

definition hasTotalDelay :: "obj \<Rightarrow> bool" where
  "hasTotalDelay ev \<longleftrightarrow> field ev ''totalDelay'' \<noteq> JUndefined"

text \<open>
  What every state of a subscription satisfies, whatever the environment
  does: the counters, what is pending, and what the pending timer and tick
  stream have captured.
\<close>

definition inv :: "config \<Rightarrow> int \<Rightarrow> operation \<Rightarrow> bool" where
  "inv options start s \<longleftrightarrow>
     startTime s = start
     \<and> attempts s \<le> retries options
     \<and> attempts s \<le> requests s \<and> requests s \<le> attempts s + 1
     \<and> (stopped s \<longrightarrow> \<not> inflight s \<and> waiting s = None)
     \<and> (\<not> stopped s \<longrightarrow> (inflight s \<or> waiting s \<noteq> None)
            \<and> (\<forall>e \<in> set (emitted s). \<not> hasTotalDelay e))
     \<and> (inflight s \<longrightarrow> waiting s = None \<and> ticking s = None \<and> requests s = attempts s + 1)
     \<and> (\<forall>d. waiting s = Some d \<longrightarrow>
            1 \<le> attempts s \<and> requests s = attempts s
            \<and> d = calculateDelayBeforeRetry (interval options) (attempts s - 1) (strategy options))
     \<and> (\<forall>t. ticking s = Some t \<longrightarrow>
            waiting s \<noteq> None \<and> tickAttempts t = attempts s - 1
            \<and> liveUpdates options \<and> \<not> noUpdates options)"



text \<open>The backend's not-ready answer, and the default options as \<open>request\<close> reads them.\<close>

definition notReadyResponse :: HttpErrorResponse where
  "notReadyResponse = HttpErrorResponse 404 (JObj [(''ready'', JBool False)])"

definition defaultConfig :: config where
  "defaultConfig =
     \<lparr>retries = 3, interval = 3000, strategy = linear, updateInterval = 1000,
      retryOnServerFailure = False, retryOnUnexpectedFormat = False,
      liveUpdates = True, noUpdates = False\<rparr>"

text \<open>
  Scenario B of the specification: one retry, no delay, a single update per
  wait.
\<close>

definition scenarioB :: config where
  "scenarioB =
     \<lparr>retries = 1, interval = 0, strategy = linear, updateInterval = 1000,
      retryOnServerFailure = False, retryOnUnexpectedFormat = False,
      liveUpdates = False, noUpdates = False\<rparr>"

text \<open>How many \<open>{loading: true}\<close> events a subscription has delivered.\<close>

definition loadings :: "operation \<Rightarrow> nat" where
  "loadings s = length (filter (\<lambda>e. e = loadingEvent) (emitted s))"

section \<open>The component that calls the service\<close>












section \<open>Properties of classification, validation and \<open>get\<close>\<close>

lemma getp_setp: "getp (setp ps k v) k' = (if k' = k then v else getp ps k')"
  by (induction ps) (auto simp: getp_def)





lemma validateOptions_frame:
  "validateOptions h a = Inr h' \<Longrightarrow> length h' = length h \<and> (\<forall>b. b \<noteq> a \<longrightarrow> h' ! b = h ! b)"
  by (auto simp: validateOptions_def Let_def split: if_splits)

text \<open>Called with \<open>{}\<close>, \<open>get\<close> returns the stream of the default options.\<close>

lemma get_defaults:
  "fst (get [defaultOptions, []] 0 1) = Inr 2
   \<and> readConfig (snd (get [defaultOptions, []] 0 1) ! 2) = Some defaultConfig"
  by (simp add: get_def validateOptions_def Let_def spread_def assign_def getp_def
        defaultOptions_def MAX_RETRIES_def MAX_RETRY_INTERVAL_def MAX_UPDATE_INTERVAL_def
        isInteger_def includesStrategy_def coerce_def readConfig_def readStrategy_def
        defaultConfig_def)

text \<open>
  C1, as stated, fails: a success whose status is not 200 goes to the \<open>next\<close>
  handler like every success, and is classified as an unexpected format, not
  as a server failure. Here a 204 response with no body.
\<close>

theorem C1_counterexample:
  "classify False False (Next (HttpResponse 204 JNull))
     \<noteq> claimedClass (Next (HttpResponse 204 JNull))"
  by (simp add: classify_def checkForValidResponse_def)

text \<open>
  C1, amended: whatever the retry flags, a success with status 200 whose body
  has \<open>ready === true\<close> and \<open>data\<close> defined is Ready; every other success, of
  any status, is FormatInvalid; a failure with status 404 whose body has
  \<open>ready === false\<close> is NotReadyRetryable; every other failure is
  ServerFailure. The class is a function of the outcome, so each outcome has
  exactly one.
\<close>

theorem C1_classification:
  "classify onFormat onFailure out = handlerClass out"
  by (cases out)
     (auto simp: classify_def handlerClass_def checkForValidResponse_def
        checkResponseForRetry_def readyShape_def)




text \<open>
  C9: \<open>get\<close> leaves the caller's options object and \<open>defaultOptions\<close> as they
  were, and every other object that existed before the call: the merged
  options are a new object, and the coercions of \<open>validateOptions\<close> write to
  it alone. This holds too when both addresses are the same object.
\<close>

theorem C9_get_frame:
  assumes "d < length h" and "opts < length h"
  shows "snd (get h d opts) ! d = h ! d \<and> snd (get h d opts) ! opts = h ! opts
         \<and> take (length h) (snd (get h d opts)) = h
         \<and> (\<forall>a. fst (get h d opts) = Inr a \<longrightarrow> a = length h \<and> a < length (snd (get h d opts)))"
proof (cases "validateOptions (h @ [spread (h ! d) (h ! opts)]) (length h)")
  case (Inl e)
  with assms show ?thesis by (simp add: get_def Let_def nth_append)
next
  case (Inr h2)
  from validateOptions_frame [OF Inr]
  have len: "length h2 = Suc (length h)"
    and same: "\<And>b. b \<noteq> length h \<Longrightarrow> h2 ! b = (h @ [spread (h ! d) (h ! opts)]) ! b"
    by auto
  have "take (length h) h2 = h"
    by (rule nth_equalityI) (use len same in \<open>auto simp: nth_append\<close>)
  with assms Inr len same show ?thesis by (simp add: get_def Let_def nth_append)
qed

text \<open>
  A call whose coercion changes a value: \<open>noUpdates: 1\<close> becomes \<open>true\<close> in
  the merged copy, and stays \<open>1\<close> in the caller's object.
\<close>

theorem C9_witness:
  "(0::nat) < length [defaultOptions, [(''noUpdates'', JNum 1)]]
   \<and> (1::nat) < length [defaultOptions, [(''noUpdates'', JNum 1)]]
   \<and> snd (get [defaultOptions, [(''noUpdates'', JNum 1)]] 0 1) ! 0 = defaultOptions
   \<and> snd (get [defaultOptions, [(''noUpdates'', JNum 1)]] 0 1) ! 1 = [(''noUpdates'', JNum 1)]
   \<and> fst (get [defaultOptions, [(''noUpdates'', JNum 1)]] 0 1) = Inr 2
   \<and> getp (snd (get [defaultOptions, [(''noUpdates'', JNum 1)]] 0 1) ! 2) ''noUpdates'' = JBool True"
proof -
  have a: "(0::nat) < length [defaultOptions, [(''noUpdates'', JNum 1)]]" by simp
  have b: "(1::nat) < length [defaultOptions, [(''noUpdates'', JNum 1)]]" by simp
  have c: "get [defaultOptions, [(''noUpdates'', JNum 1)]] 0 (Suc 0)
             = (Inr 2, [defaultOptions, [(''noUpdates'', JNum 1)],
                  [(''retries'', JNum 3), (''interval'', JNum 3000), (''strategy'', JStr ''linear''),
                   (''updateInterval'', JNum 1000), (''retryOnServerFailure'', JBool False),
                   (''retryOnUnexpectedFormat'', JBool False), (''liveUpdates'', JBool True),
                   (''noUpdates'', JBool True)]])"
    by (simp add: get_def validateOptions_def Let_def spread_def assign_def getp_def
          defaultOptions_def MAX_RETRIES_def MAX_RETRY_INTERVAL_def MAX_UPDATE_INTERVAL_def
          isInteger_def includesStrategy_def coerce_def)
  show ?thesis using C9_get_frame [OF a b] by (simp add: c getp_def)
qed

section \<open>Properties of the operation\<close>

lemmas op_defs =
  sendResponse_def completeOperation_def fetchData_def sendAndCompleteResponse_def
  sendErrorResponse_def sendErrorAndCompleteResponse_def sendMaxRetriesError_def
  sendAttemptsUpdate_def sendLiveUpdates_def retryFetchAfterDelay_def scheduleRetry_def

lemma getp_Nil [simp]: "getp [] k = JUndefined"
  by (simp add: getp_def)

lemma getp_Cons [simp]: "getp ((k', v) # ps) k = (if k = k' then v else getp ps k)"
  by (simp add: getp_def)

lemma field_loadingEvent [simp]: "field loadingEvent k = JUndefined"
  by (simp add: field_def errorOf_def loadingEvent_def)

lemma field_errorEvent:
  "field (errorEvent c extra) k = getp (spread (createErrorObject c) extra) k"
  by (simp add: field_def errorOf_def errorEvent_def assign_def buildErrorResponse_def getp_setp)

lemma field_attemptsUpdate:
  "field (attemptsUpdate c a r) ''totalDelay'' = JUndefined"
  "field (attemptsUpdate c a r) ''attempts'' = JNum (of_nat a)"
  "field (attemptsUpdate c a r) ''maxRetries'' = JNum (of_nat r)"
  "field (attemptsUpdate c a r) ''message'' = JStr (''Attempt '' @ showNat a @ '' of '' @ showNat r)"
  by (simp_all add: attemptsUpdate_def field_errorEvent spread_def assign_def createErrorObject_def getp_setp)

lemma field_liveUpdate:
  "field (liveUpdate c a r e now) ''totalDelay'' = JUndefined"
  "field (liveUpdate c a r e now) ''attempts'' = JNum (of_nat a)"
  "field (liveUpdate c a r e now) ''maxRetries'' = JNum (of_nat r)"
  "field (liveUpdate c a r e now) ''delay'' = JNum (of_int (max (e - now) 0))"
  by (simp_all add: liveUpdate_def Let_def field_def errorOf_def buildErrorResponse_def spread_def assign_def createErrorObject_def getp_setp)


lemma inv_subscribe: "inv options start (subscribe options start)"
  by (simp add: inv_def subscribe_def fetchData_def sendResponse_def hasTotalDelay_def)



lemma inv_scheduleRetry:
  assumes "inv options start s" "inflight s"
  shows "inv options start (scheduleRetry options now c (s\<lparr>inflight := False\<rparr>))"
  using assms
  by (auto simp: inv_def op_defs Let_def hasTotalDelay_def field_attemptsUpdate)

lemma inv_step: "inv options start s \<Longrightarrow> inv options start (step options i s)"
proof (cases i)
  case (Response out now)
  assume i: "inv options start s"
  show ?thesis
  proof (cases "inflight s")
    case True
    show ?thesis
    proof (cases "checkResponseObserver (retryOnUnexpectedFormat options) (retryOnServerFailure options) out")
      case (SendAndComplete b)
      with i True Response show ?thesis
        by (auto simp: inv_def sendAndCompleteResponse_def completeOperation_def sendResponse_def)
    next
      case (ScheduleRetry c)
      with inv_scheduleRetry [OF i True] True Response show ?thesis by simp
    next
      case (SendErrorAndComplete c)
      with i True Response show ?thesis
        by (auto simp: inv_def sendErrorAndCompleteResponse_def sendErrorResponse_def
              completeOperation_def sendResponse_def)
    qed
  next
    case False
    with i Response show ?thesis by simp
  qed
next
  case Elapsed
  assume "inv options start s"
  with Elapsed show ?thesis
    by (auto simp: inv_def fetchData_def sendResponse_def hasTotalDelay_def split: option.splits)
next
  case (Tick now)
  assume "inv options start s"
  with Tick show ?thesis
    by (auto simp: inv_def sendResponse_def hasTotalDelay_def field_liveUpdate split: option.splits)
next
  case Cancel
  assume "inv options start s"
  with Cancel show ?thesis
    by (auto simp: inv_def completeOperation_def)
qed

lemma run_Nil [simp]: "run options s [] = s"
  by (simp add: run_def)

lemma run_Cons [simp]: "run options s (i # ins) = run options (step options i s) ins"
  by (simp add: run_def)

lemma run_append: "run options s (xs @ ys) = run options (run options s xs) ys"
  by (simp add: run_def)

lemma run_snoc: "run options s (xs @ [i]) = step options i (run options s xs)"
  by (simp add: run_def)

lemma inv_run: "inv options start s \<Longrightarrow> inv options start (run options s ins)"
  by (induction ins arbitrary: s) (auto simp: inv_step)

lemma inv_reachable: "inv options start (run options (subscribe options start) ins)"
  by (rule inv_run [OF inv_subscribe])



lemma cancel_final: "run options (step options Cancel s) ins = step options Cancel s"
proof (induction ins)
  case Nil
  show ?case by simp
next
  case (Cons i ins)
  have "step options i (step options Cancel s) = step options Cancel s"
    by (cases i) (simp_all add: completeOperation_def)
  with Cons show ?case by simp
qed

text \<open>
  C3: wherever a subscription stands (\<open>pre\<close> is any sequence of inputs: a
  request may be in flight, a retry timer pending, a tick stream running), once
  the cancel signal has fired nothing more is emitted, whatever happens
  afterwards (\<open>post\<close>). The signal itself emits nothing either, no error and
  no data; the subscription is completed, nothing is left pending and no
  further request is made.
\<close>

theorem C3_cancel_silent:
  "emitted (run options (subscribe options start) (pre @ Cancel # post))
     = emitted (run options (subscribe options start) pre)
   \<and> requests (run options (subscribe options start) (pre @ Cancel # post))
     = requests (run options (subscribe options start) pre)
   \<and> stopped (run options (subscribe options start) (pre @ Cancel # post))
   \<and> \<not> inflight (run options (subscribe options start) (pre @ Cancel # post))
   \<and> waiting (run options (subscribe options start) (pre @ Cancel # post)) = None
   \<and> ticking (run options (subscribe options start) (pre @ Cancel # post)) = None"
proof -
  have "run options (subscribe options start) (pre @ Cancel # post)
          = step options Cancel (run options (subscribe options start) pre)"
    by (simp only: run_append run_Cons cancel_final)
  then show ?thesis by (simp add: completeOperation_def)
qed









lemma not_loading [simp]:
  "errorEvent c extra \<noteq> loadingEvent" "dataEvent b \<noteq> loadingEvent"
  "attemptsUpdate c a r \<noteq> loadingEvent" "maxRetriesError c st r a now \<noteq> loadingEvent"
proof -
  have e: "errorEvent c extra \<noteq> loadingEvent" for c extra
  proof
    assume "errorEvent c extra = loadingEvent"
    then have "getp (errorEvent c extra) ''loading'' = getp loadingEvent ''loading''" by simp
    then show False by (simp add: errorEvent_def getp_setp loadingEvent_def)
  qed
  show "dataEvent b \<noteq> loadingEvent"
  proof
    assume "dataEvent b = loadingEvent"
    then have "getp (dataEvent b) ''loading'' = getp loadingEvent ''loading''" by simp
    then show False by (simp add: dataEvent_def getp_setp loadingEvent_def)
  qed
  show "errorEvent c extra \<noteq> loadingEvent" by (rule e)
  show "attemptsUpdate c a r \<noteq> loadingEvent" by (simp add: attemptsUpdate_def e)
  show "maxRetriesError c st r a now \<noteq> loadingEvent" by (simp add: maxRetriesError_def Let_def e)
qed

lemma quietly_step:
  assumes "inv options start s" "noUpdates options" "i \<noteq> Cancel"
    "length (emitted s) = (if stopped s then 1 else 0)"
  shows "length (emitted (step options i s)) = (if stopped (step options i s) then 1 else 0)"
proof (cases i)
  case (Response out now)
  with assms show ?thesis
    by (auto simp: inv_def op_defs Let_def split: action.splits)
next
  case Elapsed
  with assms show ?thesis by (auto simp: inv_def op_defs Let_def split: option.splits)
next
  case (Tick now)
  with assms show ?thesis by (auto simp: inv_def op_defs split: option.splits)
next
  case Cancel
  with assms show ?thesis by simp
qed

lemma quietly_run:
  assumes "noUpdates options" "\<forall>i \<in> set ins. i \<noteq> Cancel"
  shows "length (emitted (run options (subscribe options start) ins))
           = (if stopped (run options (subscribe options start) ins) then 1 else 0)"
  using assms(2)
proof (induction ins rule: rev_induct)
  case Nil
  from assms(1) show ?case by (simp add: subscribe_def fetchData_def)
next
  case (snoc i ins)
  then have "length (emitted (run options (subscribe options start) ins))
               = (if stopped (run options (subscribe options start) ins) then 1 else 0)"
    and "i \<noteq> Cancel" by auto
  from quietly_step [OF inv_reachable assms(1) this(2) this(1)]
  show ?case by (simp add: run_snoc)
qed

lemma paired_step:
  assumes "inv options start s" "\<not> noUpdates options" "\<not> liveUpdates options" "i \<noteq> Cancel"
    "length (emitted s) + (if inflight s then 1 else 0) = 2 * requests s"
    "loadings s = requests s"
  shows "length (emitted (step options i s)) + (if inflight (step options i s) then 1 else 0)
           = 2 * requests (step options i s)
         \<and> loadings (step options i s) = requests (step options i s)"
proof (cases i)
  case (Response out now)
  with assms show ?thesis
    by (auto simp: inv_def op_defs loadings_def Let_def split: action.splits)
next
  case Elapsed
  with assms show ?thesis by (auto simp: inv_def op_defs loadings_def Let_def split: option.splits)
next
  case (Tick now)
  with assms show ?thesis by (auto simp: inv_def op_defs split: option.splits)
next
  case Cancel
  with assms show ?thesis by simp
qed

lemma paired_run:
  assumes "\<not> noUpdates options" "\<not> liveUpdates options" "\<forall>i \<in> set ins. i \<noteq> Cancel"
  shows "length (emitted (run options (subscribe options start) ins))
           + (if inflight (run options (subscribe options start) ins) then 1 else 0)
           = 2 * requests (run options (subscribe options start) ins)
         \<and> loadings (run options (subscribe options start) ins)
           = requests (run options (subscribe options start) ins)"
  using assms(3)
proof (induction ins rule: rev_induct)
  case Nil
  from assms(1) show ?case by (simp add: subscribe_def fetchData_def sendResponse_def loadings_def)
next
  case (snoc i ins)
  then have ih: "length (emitted (run options (subscribe options start) ins))
           + (if inflight (run options (subscribe options start) ins) then 1 else 0)
           = 2 * requests (run options (subscribe options start) ins)"
    "loadings (run options (subscribe options start) ins)
           = requests (run options (subscribe options start) ins)"
    and "i \<noteq> Cancel" by auto
  from paired_step [OF inv_reachable assms(1,2) this(3) ih]
  show ?case by (simp add: run_snoc)
qed

text \<open>
  C4, amended: for an operation that has run to its terminal event without
  being cancelled, with \<open>noUpdates\<close> exactly one event has been emitted; with
  \<open>liveUpdates\<close> and \<open>noUpdates\<close> both false there are exactly two events
  for each request made, the \<open>{loading: true}\<close> sent before it and the event
  that answers it, an \<open>Attempt N of M\<close> update or the terminal event.
\<close>

theorem C4_event_count:
  assumes "\<forall>i \<in> set ins. i \<noteq> Cancel"
    and "stopped (run options (subscribe options start) ins)"
  shows "(noUpdates options \<longrightarrow> length (emitted (run options (subscribe options start) ins)) = 1)
   \<and> (\<not> noUpdates options \<and> \<not> liveUpdates options \<longrightarrow>
        length (emitted (run options (subscribe options start) ins))
          = 2 * requests (run options (subscribe options start) ins)
        \<and> loadings (run options (subscribe options start) ins)
          = requests (run options (subscribe options start) ins))"
proof -
  have "\<not> inflight (run options (subscribe options start) ins)"
    using inv_reachable [of options start ins] assms(2) by (simp add: inv_def)
  with quietly_run [OF _ assms(1), of options start] paired_run [OF _ _ assms(1), of options start]
    assms(2)
  show ?thesis by auto
qed

text \<open>
  C4, as stated, fails in scenario B with a backend that is never ready: two
  requests are made, one of them a retry, and four events are emitted (loading,
  \<open>Attempt 0 of 1\<close>, loading, the max-retries error), not one for each attempt
  plus the terminal one.
\<close>

theorem C4_counterexample:
  "stopped (run scenarioB (subscribe scenarioB 0)
      [Response (Err notReadyResponse) 10, Elapsed, Response (Err notReadyResponse) 20])
   \<and> requests (run scenarioB (subscribe scenarioB 0)
      [Response (Err notReadyResponse) 10, Elapsed, Response (Err notReadyResponse) 20]) = 2
   \<and> length (emitted (run scenarioB (subscribe scenarioB 0)
      [Response (Err notReadyResponse) 10, Elapsed, Response (Err notReadyResponse) 20])) = 4"
  by (simp add: scenarioB_def notReadyResponse_def subscribe_def op_defs Let_def
        checkResponseForRetry_def calculateDelayBeforeRetry_def)


text \<open>The same run, and the same run with \<open>noUpdates\<close> set.\<close>

theorem C4_witness:
  "list_all (\<lambda>i. i \<noteq> Cancel)
     [Response (Err notReadyResponse) 10, Elapsed, Response (Err notReadyResponse) 20]
   \<and> stopped (run scenarioB (subscribe scenarioB 0)
        [Response (Err notReadyResponse) 10, Elapsed, Response (Err notReadyResponse) 20])
   \<and> length (emitted (run scenarioB (subscribe scenarioB 0)
        [Response (Err notReadyResponse) 10, Elapsed, Response (Err notReadyResponse) 20]))
      = 2 * requests (run scenarioB (subscribe scenarioB 0)
        [Response (Err notReadyResponse) 10, Elapsed, Response (Err notReadyResponse) 20])
   \<and> length (emitted (run (scenarioB\<lparr>noUpdates := True\<rparr>)
        (subscribe (scenarioB\<lparr>noUpdates := True\<rparr>) 0)
        [Response (Err notReadyResponse) 10, Elapsed, Response (Err notReadyResponse) 20])) = 1"
proof -
  let ?ins = "[Response (Err notReadyResponse) 10, Elapsed, Response (Err notReadyResponse) 20]"
  have nc: "\<forall>i \<in> set ?ins. i \<noteq> Cancel" by simp
  have st: "stopped (run scenarioB (subscribe scenarioB 0) ?ins)"
    by (simp add: scenarioB_def notReadyResponse_def subscribe_def op_defs Let_def
          checkResponseForRetry_def calculateDelayBeforeRetry_def)
  have st': "stopped (run (scenarioB\<lparr>noUpdates := True\<rparr>)
                (subscribe (scenarioB\<lparr>noUpdates := True\<rparr>) 0) ?ins)"
    by (simp add: scenarioB_def notReadyResponse_def subscribe_def op_defs Let_def
          checkResponseForRetry_def calculateDelayBeforeRetry_def)
  have a: "\<not> noUpdates scenarioB \<and> \<not> liveUpdates scenarioB" by (simp add: scenarioB_def)
  have b: "noUpdates (scenarioB\<lparr>noUpdates := True\<rparr>)" by simp
  have nc': "list_all (\<lambda>i. i \<noteq> Cancel) ?ins" by simp
  from C4_event_count [OF nc st] C4_event_count [OF nc st'] a b nc' st
  show ?thesis by blast
qed







section \<open>Countdown values\<close>

text \<open>
  What a tick of the wait that began at \<open>t0\<close> with delay \<open>D\<close> carries when
  the clock reads \<open>now\<close>: the time that remains, never negative, and in the
  message the same in seconds, rounded up. Once the wait has elapsed the tick
  stream is gone.
\<close>

lemma countdown_delay:
  "field (liveUpdate c a r (t0 + int D) now) ''delay'' = JNum (of_int (max (int D - (now - t0)) 0))"
  by (simp add: field_liveUpdate algebra_simps)

lemma countdown_message:
  "field (liveUpdate c a r e now) ''message''
     = JStr (''Retrying in '' @ showNat (nat \<lceil>(of_int (max (e - now) 0) :: rat) / 1000\<rceil>)
         @ '' seconds... (Attempt '' @ showNat a @ '' of '' @ showNat r @ '')'')"
  by (simp add: liveUpdate_def Let_def field_def errorOf_def buildErrorResponse_def spread_def
        assign_def createErrorObject_def getp_setp)

lemma countdown_ends:
  "ticking (run options (subscribe options start) (ins @ [Elapsed])) = None"
  using inv_reachable [of options start ins]
  by (auto simp: run_snoc inv_def fetchData_def sendResponse_def split: option.splits)

section \<open>Properties of the component\<close>

















end
